theory Spec2Isabelle
  imports Complex_Main "HOL-Library.Sublist"
begin

section \<open>Newsletter metrics collectors: Beehiiv, TinyEmail and the Supabase writer\<close>

text \<open>
  A shallow embedding of \<^verbatim>\<open>src/collectors/beehiiv.py\<close>, \<^verbatim>\<open>src/collectors/tinyemail.py\<close>
  and \<^verbatim>\<open>src/utils/supabase_writer.py\<close>.

  Conventions of the embedding:
  \<^item> Python's \<^verbatim>\<open>needle in text\<close> on strings is \<^term>\<open>sublist needle text\<close>.
  \<^item> A JSON object read with \<^verbatim>\<open>.get(key, default)\<close> is a record whose field holds the
    value that read returns; where the code tests presence or truthiness
    (\<^verbatim>\<open>publish_date\<close>, \<^verbatim>\<open>total_pages\<close>, \<^verbatim>\<open>last\<close>) the field is an option.
  \<^item> Python floats are idealised as exact rationals; \<^verbatim>\<open>/\<close> on a zero divisor is an
    explicit \<open>ZeroDivisionError\<close>.
  \<^item> An HTTP request is a function from the page number to its outcome: a response
    with a status code and a body (no body when \<^verbatim>\<open>response.json()\<close> raises), or an
    exception raised by the request itself. Console output is not modelled.
\<close>

subsection \<open>Strings and dates\<close>

record date =
  year :: nat
  month :: nat
  day :: nat

definition digit :: "nat \<Rightarrow> char" where
  "digit n = ''0123456789'' ! (n mod 10)"

fun digits :: "nat \<Rightarrow> string" where
  "digits n = (if n < 10 then [digit n] else digits (n div 10) @ [digit n])"

declare digits.simps [simp del]

definition pad2 :: "nat \<Rightarrow> string" where
  \<comment> \<open>\<^verbatim>\<open>%m\<close>, \<^verbatim>\<open>%d\<close>, \<^verbatim>\<open>%y\<close>: at least two digits, zero padded\<close>
  "pad2 n = (if n < 10 then CHR ''0'' # digits n else digits n)"

definition strftime_mdy_short :: "date \<Rightarrow> string" where
  \<comment> \<open>\<^verbatim>\<open>strftime("%m.%d.%y")\<close>\<close>
  "strftime_mdy_short d = pad2 (month d) @ ''.'' @ pad2 (day d) @ ''.'' @ pad2 (year d mod 100)"

definition strftime_mdy_long :: "date \<Rightarrow> string" where
  \<comment> \<open>\<^verbatim>\<open>strftime("%m.%d.%Y")\<close>\<close>
  "strftime_mdy_long d = pad2 (month d) @ ''.'' @ pad2 (day d) @ ''.'' @ digits (year d)"

definition strftime_mdy_nopad :: "date \<Rightarrow> string" where
  \<comment> \<open>\<^verbatim>\<open>strftime("%-m.%-d.%y")\<close>\<close>
  "strftime_mdy_nopad d = digits (month d) @ ''.'' @ digits (day d) @ ''.'' @ pad2 (year d mod 100)"

definition strftime_iso :: "date \<Rightarrow> string" where
  \<comment> \<open>\<^verbatim>\<open>strftime("%Y-%m-%d")\<close>\<close>
  "strftime_iso d = digits (year d) @ ''-'' @ pad2 (month d) @ ''-'' @ pad2 (day d)"

definition lower_char :: "char \<Rightarrow> char" where
  \<comment> \<open>\<^verbatim>\<open>str.lower()\<close> on ASCII letters; other bytes are left as they are\<close>
  "lower_char c =
     (case map_of (zip ''ABCDEFGHIJKLMNOPQRSTUVWXYZ'' ''abcdefghijklmnopqrstuvwxyz'') c of
        Some l \<Rightarrow> l
      | None \<Rightarrow> c)"

definition lower :: "string \<Rightarrow> string" where
  "lower s = map lower_char s"

subsection \<open>TinyEmail: campaigns and their classification\<close>

record campaign =
  c_name :: string          \<comment> \<open>\<^verbatim>\<open>campaign.get("campaign", {}).get("name", "")\<close>\<close>
  c_status :: string        \<comment> \<open>\<^verbatim>\<open>campaign.get("status", "")\<close>\<close>
  c_sent :: int             \<comment> \<open>\<^verbatim>\<open>campaign.get("sent", 0)\<close>\<close>
  c_delivered :: int        \<comment> \<open>\<^verbatim>\<open>campaign.get("delivered", 0)\<close>\<close>
  c_totalOpen :: int        \<comment> \<open>\<^verbatim>\<open>campaign.get("totalOpen", 0)\<close>\<close>
  c_open :: int             \<comment> \<open>\<^verbatim>\<open>campaign.get("open", 0)\<close>\<close>
  c_totalClicked :: int     \<comment> \<open>\<^verbatim>\<open>campaign.get("totalClicked", 0)\<close>\<close>
  c_clicked :: int          \<comment> \<open>\<^verbatim>\<open>campaign.get("clicked", 0)\<close>\<close>
  c_unsubscribed :: int     \<comment> \<open>\<^verbatim>\<open>campaign.get("unsubscribed", 0)\<close>\<close>
  c_spam :: int             \<comment> \<open>\<^verbatim>\<open>campaign.get("spam", 0)\<close>\<close>

definition is_daily_digest_pm :: "string \<Rightarrow> bool" where
  "is_daily_digest_pm name \<longleftrightarrow>
     sublist ''Daily Digest PM'' name \<or>
     (sublist '' PM '' name \<and> sublist ''Daily Digest'' name \<and> \<not> sublist ''CPM'' name)"

definition is_dedicated_cpm :: "string \<Rightarrow> bool" where
  "is_dedicated_cpm name \<longleftrightarrow>
     sublist ''Dedicated CPM'' name \<or>
     (sublist ''CPM'' name \<and> \<not> sublist ''Daily Digest'' name)"

definition separate_step ::
  "campaign list \<times> campaign list \<Rightarrow> campaign \<Rightarrow> campaign list \<times> campaign list" where
  \<comment> \<open>one iteration of the loop of \<^verbatim>\<open>separate_all_campaigns\<close>\<close>
  "separate_step acc c =
     (case acc of (am_campaigns, pm_campaigns) \<Rightarrow>
        if c_status c \<noteq> ''COMPLETED'' \<or> c_sent c \<le> 100 then acc
        else if is_daily_digest_pm (c_name c) \<or> is_dedicated_cpm (c_name c)
          then (am_campaigns, pm_campaigns @ [c])
        else if sublist ''Daily Digest'' (c_name c)
          then (am_campaigns @ [c], pm_campaigns)
        else acc)"

definition separate_all_campaigns :: "campaign list \<Rightarrow> campaign list \<times> campaign list" where
  "separate_all_campaigns campaigns = foldl separate_step ([], []) campaigns"

definition is_pm :: "string \<Rightarrow> bool" where
  \<comment> \<open>the \<^verbatim>\<open>is_pm\<close> test of \<^verbatim>\<open>get_previous_sends\<close>\<close>
  "is_pm name \<longleftrightarrow>
     sublist ''Daily Digest PM'' name \<or>
     sublist ''Dedicated CPM'' name \<or>
     (sublist '' PM '' name \<and> sublist ''Daily Digest'' name \<and> \<not> sublist ''CPM'' name) \<or>
     sublist '' PM-'' name \<or>
     sublist ''_PM'' name"

definition previous_sends_step :: "(string \<rightharpoonup> int) \<Rightarrow> campaign \<Rightarrow> (string \<rightharpoonup> int)" where
  \<comment> \<open>one iteration of the loop of \<^verbatim>\<open>get_previous_sends\<close>\<close>
  "previous_sends_step previous_sends c =
     (if c_status c = ''COMPLETED'' \<and> c_sent c > 100 then
        (let segment = (if is_pm (c_name c) then ''PM'' else ''AM'');
             initialised =
               (if segment \<notin> dom previous_sends then previous_sends(segment \<mapsto> 0)
                else previous_sends)
         in initialised(segment \<mapsto> the (initialised segment) + c_sent c))
      else previous_sends)"

definition get_previous_sends :: "campaign list \<Rightarrow> (string \<rightharpoonup> int)" where
  "get_previous_sends campaigns = foldl previous_sends_step Map.empty campaigns"

subsection \<open>HTTP outcomes\<close>

datatype 'a http_result =
    Response int "'a option"  \<comment> \<open>status code; the parsed body, \<open>None\<close> when \<^verbatim>\<open>.json()\<close> raises\<close>
  | Raised                    \<comment> \<open>the request raised (connection error, timeout)\<close>

subsection \<open>TinyEmail: the paginated search by date string\<close>

record campaigns_page =
  cp_content :: "campaign list"  \<comment> \<open>\<^verbatim>\<open>campaigns_data.get("content", [])\<close>\<close>
  cp_last :: "bool option"       \<comment> \<open>the \<^verbatim>\<open>last\<close> flag; \<open>None\<close> when the key is absent\<close>

definition date_formats :: "date \<Rightarrow> string list" where
  "date_formats target_date =
     [strftime_mdy_short target_date, strftime_mdy_long target_date,
      strftime_mdy_nopad target_date, strftime_iso target_date]"

definition matches_date :: "string list \<Rightarrow> campaign \<Rightarrow> bool" where
  \<comment> \<open>\<^verbatim>\<open>any(date_fmt in name for date_fmt in date_formats)\<close>\<close>
  "matches_date fmts c = list_ex (\<lambda>date_fmt. sublist date_fmt (c_name c)) fmts"

definition is_last :: "campaigns_page \<Rightarrow> bool" where
  \<comment> \<open>\<^verbatim>\<open>campaigns_data.get('last', True)\<close>\<close>
  "is_last campaigns_data = (case cp_last campaigns_data of None \<Rightarrow> True | Some b \<Rightarrow> b)"

function get_campaigns_loop ::
  "(nat \<Rightarrow> campaigns_page http_result) \<Rightarrow> string list \<Rightarrow> nat \<Rightarrow> campaign list \<Rightarrow> campaign list"
where
  "get_campaigns_loop fetch fmts page found_campaigns =
     (if page < 20 then
        (case fetch page of
           Raised \<Rightarrow> found_campaigns
         | Response status_code body \<Rightarrow>
             if status_code = 200 then
               (case body of
                  None \<Rightarrow> found_campaigns
                | Some campaigns_data \<Rightarrow>
                    (let found' = found_campaigns @ filter (matches_date fmts) (cp_content campaigns_data)
                     in if is_last campaigns_data then found'
                        else get_campaigns_loop fetch fmts (page + 1) found'))
             else found_campaigns)
      else found_campaigns)"
  by pat_completeness auto
termination
  by (relation "measure (\<lambda>(fetch, fmts, page, found_campaigns). 20 - page)") auto

declare get_campaigns_loop.simps [simp del]

definition get_campaigns_for_date ::
  "(string \<Rightarrow> nat \<Rightarrow> campaigns_page http_result) \<Rightarrow> string \<Rightarrow> string \<Rightarrow> date \<Rightarrow> campaign list"
where
  "get_campaigns_for_date fetch api_key brand_name target_date =
     get_campaigns_loop (fetch api_key) (date_formats target_date) 0 []"

subsection \<open>Rates and the canonical metric row\<close>

datatype error = ZeroDivisionError

definition truediv :: "int \<Rightarrow> int \<Rightarrow> error + rat" where
  \<comment> \<open>Python's \<^verbatim>\<open>a / b\<close> on integers\<close>
  "truediv a b = (if b = 0 then Inl ZeroDivisionError else Inr (of_int a / of_int b))"

definition and_then :: "error + 'a \<Rightarrow> ('a \<Rightarrow> error + 'b) \<Rightarrow> error + 'b" where
  \<comment> \<open>sequencing: an error raised by the first computation skips the rest\<close>
  "and_then r f = (case r of Inl e \<Rightarrow> Inl e | Inr v \<Rightarrow> f v)"

definition py_round :: "rat \<Rightarrow> nat \<Rightarrow> rat" where
  \<comment> \<open>\<^verbatim>\<open>round(x, ndigits)\<close>: to the nearest multiple of \<open>10 ^ -ndigits\<close>, ties to even\<close>
  "py_round x ndigits =
     (let scaled = x * 10 ^ ndigits;
          below = \<lfloor>scaled\<rfloor>;
          rest = scaled - of_int below
      in of_int (if rest < 1 / 2 then below
                 else if rest > 1 / 2 then below + 1
                 else if even below then below else below + 1) / 10 ^ ndigits)"

record metric =
  Date :: string
  Brand :: string
  Platform :: string
  Campaign_Type :: string
  Sends :: int
  Delivered :: rat
  Opens :: int
  Open_Rate :: rat
  Unique_Opens :: int
  Unique_Open_Rate :: rat
  Clicks :: int
  CTR :: rat
  Unique_Clicks :: int
  UCTR :: rat
  Brand_List_Size :: int
  List_Growth :: int
  Pct_Unsubscribe :: rat
  Unsubscribes :: int
  Spam :: int

subsection \<open>TinyEmail: metric rows\<close>





subsection \<open>Beehiiv: posts, tags and the paginated search by publish date\<close>

record post =
  publish_date :: "int option"   \<comment> \<open>\<^verbatim>\<open>post.get("publish_date")\<close>; \<open>None\<close> when absent or null\<close>
  title :: string                \<comment> \<open>\<^verbatim>\<open>post.get("title", "")\<close>\<close>
  content_tags :: "string list"  \<comment> \<open>\<^verbatim>\<open>post.get("content_tags", [])\<close>\<close>
  recipients :: int              \<comment> \<open>the fields of \<^verbatim>\<open>post.get("stats", {}).get("email", {})\<close>\<close>
  delivered :: int
  opens :: int
  unique_opens :: int
  clicks :: int
  unique_clicks :: int
  unsubscribes :: int
  spam_reports :: int

record posts_page =
  pp_data :: "post list"            \<comment> \<open>\<^verbatim>\<open>data.get("data", [])\<close>\<close>
  pp_total_pages :: "int option"    \<comment> \<open>\<^verbatim>\<open>total_pages\<close>; \<open>None\<close> when the key is absent\<close>

record search_result =
  r_posts :: "post list"   \<comment> \<open>\<^verbatim>\<open>'posts'\<close>\<close>
  r_recipients :: int      \<comment> \<open>\<^verbatim>\<open>'recipients'\<close>\<close>

definition newsletter_variations :: "string list" where
  "newsletter_variations =
     [''newsletter'', ''news-letter'', ''news_letter'',
      ''daily newsletter'', ''daily-newsletter'', ''daily_newsletter'']"

definition is_newsletter_post :: "string list \<Rightarrow> bool" where
  "is_newsletter_post tags =
     (if tags = [] then False
      else list_ex (\<lambda>tag. list_ex (\<lambda>variation. sublist variation tag) newsletter_variations)
             (map lower tags))"

definition no_tag_brands :: "string list" where
  "no_tag_brands = [''News Flash'', ''News Stand'']"

definition max_pages :: nat where
  "max_pages = 50"

definition scan_post ::
  "(int \<Rightarrow> date) \<Rightarrow> date \<Rightarrow> bool \<Rightarrow> bool \<Rightarrow> post list \<times> int \<Rightarrow> post \<Rightarrow> post list \<times> int" where
  \<comment> \<open>one iteration of \<^verbatim>\<open>for post in posts\<close>, on the pair
      \<^verbatim>\<open>(newsletter_posts, total_recipients)\<close>\<close>
  "scan_post fromtimestamp target_date use_tag_filter get_full_data acc post =
     (case acc of (newsletter_posts, total_recipients) \<Rightarrow>
        (case publish_date post of
           None \<Rightarrow> acc
         | Some ts \<Rightarrow>
             if ts = 0 then acc
             else if fromtimestamp ts = target_date then
               if sublist ''Dedicated CPM'' (title post) then acc
               else if use_tag_filter then
                 if is_newsletter_post (content_tags post) then
                   (if get_full_data then newsletter_posts @ [post] else newsletter_posts,
                    total_recipients + recipients post)
                 else acc
               else
                 (if get_full_data then newsletter_posts @ [post] else newsletter_posts,
                  total_recipients + recipients post)
             else acc))"

definition total_pages_of :: "posts_page \<Rightarrow> int" where
  \<comment> \<open>\<^verbatim>\<open>data.get("total_pages", 1)\<close>\<close>
  "total_pages_of d = (case pp_total_pages d of None \<Rightarrow> 1 | Some n \<Rightarrow> n)"

function get_posts_loop ::
  "(nat \<Rightarrow> posts_page http_result) \<Rightarrow> (int \<Rightarrow> date) \<Rightarrow> date \<Rightarrow> bool \<Rightarrow> bool \<Rightarrow>
   nat \<Rightarrow> post list \<times> int \<Rightarrow> post list \<times> int"
where
  "get_posts_loop fetch fromtimestamp target_date use_tag_filter get_full_data page acc =
     (if page \<le> max_pages then
        (case fetch page of
           Raised \<Rightarrow> acc
         | Response status_code body \<Rightarrow>
             if status_code \<noteq> 200 then acc
             else
               (case body of
                  None \<Rightarrow> acc
                | Some d \<Rightarrow>
                    if pp_data d = [] then acc
                    else
                      (let acc' = foldl (scan_post fromtimestamp target_date use_tag_filter get_full_data)
                                    acc (pp_data d)
                       in if int page \<ge> total_pages_of d then acc'
                          else get_posts_loop fetch fromtimestamp target_date use_tag_filter
                                 get_full_data (page + 1) acc')))
      else acc)"
  by pat_completeness auto
termination
  by (relation "measure (\<lambda>(fetch, fromtimestamp, target_date, use_tag_filter, get_full_data, page, acc).
                  Suc max_pages - page)") auto

declare get_posts_loop.simps [simp del]

definition get_posts_for_date ::
  "(string \<rightharpoonup> string) \<Rightarrow> (string \<Rightarrow> nat \<Rightarrow> posts_page http_result) \<Rightarrow> (int \<Rightarrow> date) \<Rightarrow>
   string \<Rightarrow> date \<Rightarrow> bool \<Rightarrow> search_result" where
  \<comment> \<open>\<open>publications\<close> maps a brand name to its publication id; \<open>fetch pub_id page\<close> is the
      request for one page of that publication; \<open>fromtimestamp\<close> is the host's conversion
      of a timestamp to a local calendar date\<close>
  "get_posts_for_date publications fetch fromtimestamp brand_name target_date get_full_data =
     (case publications brand_name of
        None \<Rightarrow> \<lparr>r_posts = [], r_recipients = 0\<rparr>
      | Some pub_id \<Rightarrow>
          (let use_tag_filter = (brand_name \<notin> set no_tag_brands);
               (newsletter_posts, total_recipients) =
                  get_posts_loop (fetch pub_id) fromtimestamp target_date use_tag_filter
                    get_full_data 1 ([], 0)
           in \<lparr>r_posts = newsletter_posts, r_recipients = total_recipients\<rparr>))"

subsection \<open>Beehiiv: metric rows\<close>

definition extract_metrics :: "(int \<Rightarrow> date) \<Rightarrow> date \<Rightarrow> post \<Rightarrow> string \<Rightarrow> int \<Rightarrow> error + metric" where
  \<comment> \<open>\<open>now\<close> is the calendar date \<^verbatim>\<open>datetime.now()\<close> would give\<close>
  "extract_metrics fromtimestamp now post brand_name previous_day_recipients =
     (let post_date = (case publish_date post of
                         None \<Rightarrow> now
                       | Some ts \<Rightarrow> if ts = 0 then now else fromtimestamp ts);
          sends = recipients post
      in and_then
           (if sends > 0 then
              and_then (truediv (delivered post) sends) (\<lambda>q1.
              and_then (truediv (opens post) sends) (\<lambda>q2.
              and_then (truediv (unique_opens post) sends) (\<lambda>q3.
              and_then (truediv (clicks post) sends) (\<lambda>q4.
              and_then (truediv (unique_clicks post) sends) (\<lambda>q5.
              and_then (truediv (unsubscribes post) sends) (\<lambda>q6.
                Inr (q1 * 100, q2 * 100, q3 * 100, q4 * 100, q5 * 100, q6)))))))
            else Inr (0, 0, 0, 0, 0, 0))
           (\<lambda>(delivery_rate, open_rate, unique_open_rate, ctr, uctr, unsubscribe_rate).
              (let list_growth = sends - previous_day_recipients
               in Inr \<lparr>Date = strftime_iso post_date,
                       Brand = brand_name,
                       Platform = ''Beehiiv'',
                       Campaign_Type = ''Newsletter'',
                       Sends = sends,
                       Delivered = py_round delivery_rate 2,
                       Opens = opens post,
                       Open_Rate = py_round open_rate 2,
                       Unique_Opens = unique_opens post,
                       Unique_Open_Rate = py_round unique_open_rate 2,
                       Clicks = clicks post,
                       CTR = py_round ctr 2,
                       Unique_Clicks = unique_clicks post,
                       UCTR = py_round uctr 2,
                       Brand_List_Size = sends,
                       List_Growth = list_growth,
                       Pct_Unsubscribe = py_round unsubscribe_rate 4,
                       Unsubscribes = unsubscribes post,
                       Spam = spam_reports post\<rparr>)))"



subsection \<open>The Supabase writer\<close>

record db_row =
  db_date :: string
  db_brand :: string
  db_platform :: string
  db_campaign_type :: string
  db_sends :: int
  db_delivered :: int
  db_opens :: int
  db_open_rate :: rat
  db_unique_opens :: int
  db_unique_open_rate :: rat
  db_clicks :: int
  db_ctr :: rat
  db_unique_clicks :: int
  db_uctr :: rat
  db_brand_list_size :: int
  db_list_growth :: int
  db_unsubscribes :: int
  db_unsubscribe_rate :: rat
  db_spam_reports :: int
  db_created_at :: string
  db_updated_at :: string

definition int_of_float :: "rat \<Rightarrow> int" where
  \<comment> \<open>\<^verbatim>\<open>int(float(x))\<close>: truncation toward zero\<close>
  "int_of_float x = (if x \<ge> 0 then \<lfloor>x\<rfloor> else \<lceil>x\<rceil>)"

definition write_metrics_data :: "string \<Rightarrow> metric \<Rightarrow> db_row" where
  \<comment> \<open>the dictionary \<^verbatim>\<open>data\<close> built by \<^verbatim>\<open>write_metrics\<close>; \<open>now\<close> is
      \<^verbatim>\<open>datetime.now().isoformat()\<close>\<close>
  "write_metrics_data now record =
     \<lparr>db_date = Date record,
      db_brand = Brand record,
      db_platform = Platform record,
      db_campaign_type = Campaign_Type record,
      db_sends = Sends record,
      db_delivered = int_of_float (Delivered record),
      db_opens = Opens record,
      db_open_rate = Open_Rate record,
      db_unique_opens = Unique_Opens record,
      db_unique_open_rate = Unique_Open_Rate record,
      db_clicks = Clicks record,
      db_ctr = CTR record,
      db_unique_clicks = Unique_Clicks record,
      db_uctr = UCTR record,
      db_brand_list_size = Brand_List_Size record,
      db_list_growth = List_Growth record,
      db_unsubscribes = Unsubscribes record,
      db_unsubscribe_rate = Pct_Unsubscribe record,
      db_spam_reports = Spam record,
      db_created_at = now,
      db_updated_at = now\<rparr>"

definition write_metrics :: "(db_row \<Rightarrow> string option) \<Rightarrow> string \<Rightarrow> metric \<Rightarrow> string + bool" where
  \<comment> \<open>\<open>upsert\<close> is the store's upsert on \<^verbatim>\<open>(date, brand, campaign_type)\<close>: \<open>Some msg\<close> when
      it raises. The writer re-raises with its own message, otherwise returns \<^verbatim>\<open>True\<close>\<close>
  "write_metrics upsert now record =
     (case upsert (write_metrics_data now record) of
        Some msg \<Rightarrow> Inl (''Failed to write to Supabase: '' @ msg)
      | None \<Rightarrow> Inr True)"

subsection \<open>Predicates used to state the properties\<close>

definition qualifies :: "(int \<Rightarrow> date) \<Rightarrow> date \<Rightarrow> bool \<Rightarrow> post \<Rightarrow> bool" where
  \<comment> \<open>the posts for which \<^const>\<open>scan_post\<close> reaches one of its two collecting branches\<close>
  "qualifies fromtimestamp target_date use_tag_filter post =
     (case publish_date post of
        None \<Rightarrow> False
      | Some ts \<Rightarrow>
          ts \<noteq> 0 \<and> fromtimestamp ts = target_date \<and>
          \<not> sublist ''Dedicated CPM'' (title post) \<and>
          (if use_tag_filter then is_newsletter_post (content_tags post) else True))"

definition page_posts :: "posts_page http_result \<Rightarrow> post list" where
  \<comment> \<open>the posts of a page that answered 200 with a body\<close>
  "page_posts r =
     (case r of
        Raised \<Rightarrow> []
      | Response status_code body \<Rightarrow>
          if status_code = 200 then (case body of None \<Rightarrow> [] | Some d \<Rightarrow> pp_data d) else [])"

definition page_campaigns :: "campaigns_page http_result \<Rightarrow> campaign list" where
  \<comment> \<open>the campaigns of a page that answered 200 with a body\<close>
  "page_campaigns r =
     (case r of
        Raised \<Rightarrow> []
      | Response status_code body \<Rightarrow>
          if status_code = 200 then (case body of None \<Rightarrow> [] | Some d \<Rightarrow> cp_content d) else [])"

definition failed :: "'a http_result \<Rightarrow> bool" where
  \<comment> \<open>the request raised, the status is not 200, or the body does not parse\<close>
  "failed r = (case r of Raised \<Rightarrow> True | Response status_code body \<Rightarrow> status_code \<noteq> 200 \<or> body = None)"

definition beehiiv_stops :: "posts_page http_result \<Rightarrow> nat \<Rightarrow> bool" where
  \<comment> \<open>the \<^verbatim>\<open>break\<close>s of the Beehiiv page loop: a failed request, an empty page, or
      the last page by \<^verbatim>\<open>total_pages\<close>\<close>
  "beehiiv_stops r page =
     (case r of
        Raised \<Rightarrow> True
      | Response status_code body \<Rightarrow>
          status_code \<noteq> 200 \<or>
          (case body of None \<Rightarrow> True | Some d \<Rightarrow> pp_data d = [] \<or> int page \<ge> total_pages_of d))"

definition tinyemail_stops :: "campaigns_page http_result \<Rightarrow> bool" where
  \<comment> \<open>the \<^verbatim>\<open>break\<close>s of the TinyEmail page loop: a failed request or the \<^verbatim>\<open>last\<close> flag\<close>
  "tinyemail_stops r =
     (case r of
        Raised \<Rightarrow> True
      | Response status_code body \<Rightarrow>
          status_code \<noteq> 200 \<or> (case body of None \<Rightarrow> True | Some d \<Rightarrow> is_last d))"


subsection \<open>An example host: UTC\<close>

definition civil_from_days :: "int \<Rightarrow> date" where
  \<comment> \<open>the proleptic Gregorian date of a day count since 1970-01-01\<close>
  "civil_from_days n =
     (let z = n + 719468;
          era = z div 146097;
          doe = z mod 146097;
          yoe = (doe - doe div 1460 + doe div 36524 - doe div 146096) div 365;
          doy = doe - (365 * yoe + yoe div 4 - yoe div 100);
          mp = (5 * doy + 2) div 153;
          d = doy - (153 * mp + 2) div 5 + 1;
          m = (if mp < 10 then mp + 3 else mp - 9);
          y = yoe + era * 400 + (if m \<le> 2 then 1 else 0)
      in \<lparr>year = nat y, month = nat m, day = nat d\<rparr>)"

definition utc_fromtimestamp :: "int \<Rightarrow> date" where
  \<comment> \<open>\<^verbatim>\<open>datetime.fromtimestamp(ts).date()\<close> on a host whose local time is UTC\<close>
  "utc_fromtimestamp ts = civil_from_days (ts div 86400)"

subsection \<open>Example inputs\<close>

definition oct15 :: date where
  "oct15 = \<lparr>year = 2025, month = 10, day = 15\<rparr>"

definition oct14 :: date where
  "oct14 = \<lparr>year = 2025, month = 10, day = 14\<rparr>"

definition brief_post :: post where
  \<comment> \<open>published 2025-10-15 12:00 UTC\<close>
  "brief_post =
     \<lparr>publish_date = Some 1760529600, title = ''Morning Brief'', content_tags = [''Newsletter''],
      recipients = 5000, delivered = 4900, opens = 2100, unique_opens = 1800, clicks = 300,
      unique_clicks = 250, unsubscribes = 12, spam_reports = 1\<rparr>"

definition late_post :: post where
  \<comment> \<open>published 2025-10-15 18:00 UTC\<close>
  "late_post =
     \<lparr>publish_date = Some 1760551200, title = ''Evening Brief'', content_tags = [''daily-newsletter''],
      recipients = 4000, delivered = 3900, opens = 1500, unique_opens = 1200, clicks = 200,
      unique_clicks = 150, unsubscribes = 8, spam_reports = 0\<rparr>"

definition old_post :: post where
  \<comment> \<open>published 2025-08-12 12:00 UTC\<close>
  "old_post =
     \<lparr>publish_date = Some 1755000000, title = ''August Brief'', content_tags = [''newsletter''],
      recipients = 4500, delivered = 4400, opens = 1700, unique_opens = 1400, clicks = 220,
      unique_clicks = 180, unsubscribes = 9, spam_reports = 0\<rparr>"

definition cpm_post :: post where
  "cpm_post =
     \<lparr>publish_date = Some 1760529600, title = ''Dedicated CPM 10.15.25'', content_tags = [''newsletter''],
      recipients = 3000, delivered = 2950, opens = 900, unique_opens = 800, clicks = 90,
      unique_clicks = 80, unsubscribes = 5, spam_reports = 0\<rparr>"

definition small_post :: post where
  \<comment> \<open>a send to five recipients\<close>
  "small_post =
     \<lparr>publish_date = Some 1760529600, title = ''Test send'', content_tags = [''newsletter''],
      recipients = 5, delivered = 5, opens = 3, unique_opens = 2, clicks = 1,
      unique_clicks = 1, unsubscribes = 0, spam_reports = 0\<rparr>"

definition undated_post :: post where
  "undated_post =
     \<lparr>publish_date = None, title = ''Draft'', content_tags = [''newsletter''],
      recipients = 777, delivered = 0, opens = 0, unique_opens = 0, clicks = 0,
      unique_clicks = 0, unsubscribes = 0, spam_reports = 0\<rparr>"

definition example_publications :: "string \<rightharpoonup> string" where
  "example_publications = [''Morning Brief'' \<mapsto> ''pub_1'', ''News Flash'' \<mapsto> ''pub_2'']"

definition unordered_fetch :: "string \<Rightarrow> nat \<Rightarrow> posts_page http_result" where
  \<comment> \<open>three pages in creation order: the posts of the target day are on the last one\<close>
  "unordered_fetch pub_id page =
     (if page = 1 then Response 200 (Some \<lparr>pp_data = [old_post], pp_total_pages = Some 3\<rparr>)
      else if page = 2 then
        Response 200 (Some \<lparr>pp_data = [old_post, undated_post], pp_total_pages = Some 3\<rparr>)
      else if page = 3 then
        Response 200 (Some \<lparr>pp_data = [brief_post, cpm_post], pp_total_pages = Some 3\<rparr>)
      else Response 404 None)"



definition am_campaign :: campaign where
  "am_campaign =
     \<lparr>c_name = ''Daily Digest 10.15.25'', c_status = ''COMPLETED'', c_sent = 5000,
      c_delivered = 4900, c_totalOpen = 2100, c_open = 1800, c_totalClicked = 300,
      c_clicked = 250, c_unsubscribed = 12, c_spam = 1\<rparr>"

definition pm_campaign :: campaign where
  "pm_campaign =
     \<lparr>c_name = ''Daily Digest PM 10.15.25'', c_status = ''COMPLETED'', c_sent = 4000,
      c_delivered = 3900, c_totalOpen = 1500, c_open = 1200, c_totalClicked = 200,
      c_clicked = 150, c_unsubscribed = 8, c_spam = 0\<rparr>"

definition underscore_pm_campaign :: campaign where
  "underscore_pm_campaign =
     \<lparr>c_name = ''Daily Digest_PM 10.15.25'', c_status = ''COMPLETED'', c_sent = 5000,
      c_delivered = 4900, c_totalOpen = 2000, c_open = 1700, c_totalClicked = 280,
      c_clicked = 240, c_unsubscribed = 10, c_spam = 0\<rparr>"

definition welcome_campaign :: campaign where
  "welcome_campaign =
     \<lparr>c_name = ''Welcome Series 10.15.25'', c_status = ''COMPLETED'', c_sent = 900,
      c_delivered = 890, c_totalOpen = 400, c_open = 350, c_totalClicked = 60,
      c_clicked = 50, c_unsubscribed = 1, c_spam = 0\<rparr>"

definition draft_campaign :: campaign where
  "draft_campaign =
     \<lparr>c_name = ''Daily Digest 10.15.25'', c_status = ''DRAFT'', c_sent = 5000,
      c_delivered = 0, c_totalOpen = 0, c_open = 0, c_totalClicked = 0,
      c_clicked = 0, c_unsubscribed = 0, c_spam = 0\<rparr>"

definition test_campaign :: campaign where
  "test_campaign =
     \<lparr>c_name = ''Daily Digest 10.15.25 test'', c_status = ''COMPLETED'', c_sent = 50,
      c_delivered = 50, c_totalOpen = 20, c_open = 10, c_totalClicked = 2,
      c_clicked = 1, c_unsubscribed = 0, c_spam = 0\<rparr>"

definition august_campaign :: campaign where
  "august_campaign =
     \<lparr>c_name = ''Daily Digest 08.12.25'', c_status = ''COMPLETED'', c_sent = 4500,
      c_delivered = 4400, c_totalOpen = 1700, c_open = 1400, c_totalClicked = 220,
      c_clicked = 180, c_unsubscribed = 9, c_spam = 0\<rparr>"


definition campaigns_failing_fetch :: "string \<Rightarrow> nat \<Rightarrow> campaigns_page http_result" where
  \<comment> \<open>the second page raises\<close>
  "campaigns_failing_fetch api_key page =
     (if page = 0 then Response 200 (Some \<lparr>cp_content = [am_campaign], cp_last = Some False\<rparr>)
      else if page = 1 then Raised
      else Response 200 (Some \<lparr>cp_content = [pm_campaign], cp_last = Some True\<rparr>))"

definition example_metric :: metric where
  "example_metric =
     \<lparr>Date = ''2025-10-15'', Brand = ''Morning Brief'', Platform = ''Beehiiv'',
      Campaign_Type = ''Newsletter'', Sends = 5000, Delivered = 9064 / 100, Opens = 2100,
      Open_Rate = 42, Unique_Opens = 1800, Unique_Open_Rate = 36, Clicks = 300, CTR = 6,
      Unique_Clicks = 250, UCTR = 5, Brand_List_Size = 5000, List_Growth = 120,
      Pct_Unsubscribe = 24 / 10000, Unsubscribes = 12, Spam = 1\<rparr>"






section \<open>Auxiliary lemmas\<close>

subsection \<open>The Beehiiv page loop\<close>

lemma scan_post_qualifies:
  "scan_post fts target use_tag full (ps, t) p =
     (if qualifies fts target use_tag p
      then (if full then ps @ [p] else ps, t + recipients p) else (ps, t))"
  by (simp add: scan_post_def qualifies_def split: option.splits)

lemma foldl_scan_post:
  "foldl (scan_post fts target use_tag full) (ps, t) xs =
     (ps @ (if full then filter (qualifies fts target use_tag) xs else []),
      t + sum_list (map recipients (filter (qualifies fts target use_tag) xs)))"
  by (induction xs arbitrary: ps t) (simp_all add: scan_post_qualifies)


lemma get_posts_loop_cap:
  "max_pages < page \<Longrightarrow> get_posts_loop fetch fts target use_tag full page acc = acc"
  by (subst get_posts_loop.simps) simp

lemma get_posts_loop_stop:
  "page \<le> max_pages \<Longrightarrow> beehiiv_stops (fetch page) page \<Longrightarrow> 
   get_posts_loop fetch fts target use_tag full page acc =
     foldl (scan_post fts target use_tag full) acc (page_posts (fetch page))"
  by (subst get_posts_loop.simps)
     (auto simp: beehiiv_stops_def page_posts_def Let_def split: http_result.splits option.splits)

lemma get_posts_loop_step:
  "page \<le> max_pages \<Longrightarrow> \<not> beehiiv_stops (fetch page) page \<Longrightarrow> 
   get_posts_loop fetch fts target use_tag full page acc =
     get_posts_loop fetch fts target use_tag full (page + 1)
       (foldl (scan_post fts target use_tag full) acc (page_posts (fetch page)))"
  by (subst get_posts_loop.simps)
     (auto simp: beehiiv_stops_def page_posts_def Let_def split: http_result.splits option.splits)


lemma get_posts_loop_invariant:
  assumes step: "\<And>a xs. P a \<Longrightarrow> P (foldl (scan_post fts target use_tag full) a xs)"
    and init: "P acc"
  shows "P (get_posts_loop fetch fts target use_tag full page acc)"
  using init
proof (induction "Suc max_pages - page" arbitrary: page acc)
  case 0
  then have "max_pages < page" by simp
  with 0 show ?case by (simp add: get_posts_loop_cap)
next
  case (Suc n)
  then have le: "page \<le> max_pages" by simp
  show ?case
  proof (cases "beehiiv_stops (fetch page) page")
    case True
    with le Suc.prems show ?thesis by (simp add: get_posts_loop_stop step)
  next
    case False
    have "n = Suc max_pages - (page + 1)" using Suc.hyps(2) by simp
    then have "P (get_posts_loop fetch fts target use_tag full (page + 1)
                 (foldl (scan_post fts target use_tag full) acc (page_posts (fetch page))))"
      using Suc.hyps(1) Suc.prems step by blast
    with le False show ?thesis by (simp add: get_posts_loop_step)
  qed
qed

lemma get_posts_loop_qualify:
  assumes "\<forall>p \<in> set (fst acc). qualifies fts target use_tag p"
  shows "\<forall>p \<in> set (fst (get_posts_loop fetch fts target use_tag full page acc)).
           qualifies fts target use_tag p"
  by (rule get_posts_loop_invariant [where P = "\<lambda>a. \<forall>p \<in> set (fst a). qualifies fts target use_tag p"])
     (use assms in \<open>auto simp: foldl_scan_post split: prod.splits\<close>)


lemma get_posts_loop_recipients:
  assumes "snd acc = c + sum_list (map recipients (fst acc))"
  shows "snd (get_posts_loop fetch fts target use_tag True page acc) =
         c + sum_list (map recipients (fst (get_posts_loop fetch fts target use_tag True page acc)))"
  by (rule get_posts_loop_invariant [where P = "\<lambda>a. snd a = c + sum_list (map recipients (fst a))"])
     (use assms in \<open>auto simp: foldl_scan_post split: prod.splits\<close>)

lemma get_posts_loop_modes:
  "get_posts_loop fetch fts target use_tag False page (ps, t) =
     (ps, snd (get_posts_loop fetch fts target use_tag True page (ps', t)))"
proof (induction "Suc max_pages - page" arbitrary: page ps ps' t)
  case 0
  then have "max_pages < page" by simp
  then show ?case by (simp add: get_posts_loop_cap)
next
  case (Suc n)
  then have le: "page \<le> max_pages" by simp
  show ?case
  proof (cases "beehiiv_stops (fetch page) page")
    case True
    with le show ?thesis by (simp add: get_posts_loop_stop foldl_scan_post)
  next
    case False
    have "n = Suc max_pages - (page + 1)" using Suc.hyps(2) by simp
    from Suc.hyps(1) [OF this] le False show ?thesis
      by (simp add: get_posts_loop_step foldl_scan_post)
  qed
qed

lemma get_posts_loop_pages:
  assumes "page \<le> k" "k \<le> max_pages"
    and "\<forall>j \<in> set [page..<k]. \<not> beehiiv_stops (fetch j) j"
    and "beehiiv_stops (fetch k) k"
  shows "get_posts_loop fetch fts target use_tag full page acc =
         foldl (\<lambda>a j. foldl (scan_post fts target use_tag full) a (page_posts (fetch j))) acc [page..<Suc k]"
  using assms
proof (induction "k - page" arbitrary: page acc)
  case 0
  then have "page = k" by simp
  with 0 show ?case by (simp add: get_posts_loop_stop)
next
  case (Suc n)
  then have lt: "page < k" by simp
  with Suc.prems have go: "\<not> beehiiv_stops (fetch page) page" and le: "page \<le> max_pages" by auto
  have "n = k - (page + 1)" using Suc.hyps(2) by simp
  from Suc.hyps(1) [OF this] Suc.prems lt
  have "get_posts_loop fetch fts target use_tag full (page + 1)
          (foldl (scan_post fts target use_tag full) acc (page_posts (fetch page))) =
        foldl (\<lambda>a j. foldl (scan_post fts target use_tag full) a (page_posts (fetch j)))
          (foldl (scan_post fts target use_tag full) acc (page_posts (fetch page))) [page + 1..<Suc k]"
    by simp
  moreover have "[page..<Suc k] = page # [page + 1..<Suc k]"
    using lt by (simp add: upt_conv_Cons)
  ultimately show ?case using go le by (simp add: get_posts_loop_step)
qed


subsection \<open>The TinyEmail page loop\<close>


lemma get_campaigns_loop_raised:
  "fetch page = Raised \<Longrightarrow> get_campaigns_loop fetch fmts page found = found"
  by (subst get_campaigns_loop.simps) simp

lemma get_campaigns_loop_status:
  "fetch page = Response status_code body \<Longrightarrow> status_code \<noteq> 200 \<Longrightarrow>
   get_campaigns_loop fetch fmts page found = found"
  by (subst get_campaigns_loop.simps) simp

lemma get_campaigns_loop_no_body:
  "fetch page = Response status_code None \<Longrightarrow> get_campaigns_loop fetch fmts page found = found"
  by (subst get_campaigns_loop.simps) simp

lemma get_campaigns_loop_ok:
  "page < 20 \<Longrightarrow> fetch page = Response 200 (Some d) \<Longrightarrow>
   get_campaigns_loop fetch fmts page found =
     (if is_last d then found @ filter (matches_date fmts) (cp_content d)
      else get_campaigns_loop fetch fmts (page + 1) (found @ filter (matches_date fmts) (cp_content d)))"
  by (subst get_campaigns_loop.simps) (simp add: Let_def)

lemma get_campaigns_loop_failed:
  assumes "failed (fetch page)"
  shows "get_campaigns_loop fetch fmts page found = found"
proof (cases "fetch page")
  case Raised
  then show ?thesis by (rule get_campaigns_loop_raised)
next
  case (Response status_code body)
  with assms have "status_code \<noteq> 200 \<or> body = None" by (simp add: failed_def)
  with Response show ?thesis
    using get_campaigns_loop_status get_campaigns_loop_no_body by blast
qed



lemma page_campaigns_ok: "page_campaigns (Response 200 (Some d)) = cp_content d"
  by (simp add: page_campaigns_def)


lemma get_campaigns_loop_step:
  assumes "page < 20" "\<not> tinyemail_stops (fetch page)"
  shows "get_campaigns_loop fetch fmts page found =
         get_campaigns_loop fetch fmts (page + 1)
           (found @ filter (matches_date fmts) (page_campaigns (fetch page)))"
proof -
  from assms obtain d where "fetch page = Response 200 (Some d)" "\<not> is_last d"
    by (cases "fetch page") (auto simp: tinyemail_stops_def split: option.splits)
  with assms show ?thesis by (simp add: get_campaigns_loop_ok page_campaigns_ok)
qed







subsection \<open>The example inputs evaluated\<close>

lemma utc_oct15_noon: "utc_fromtimestamp 1760529600 = oct15"
  unfolding oct15_def by code_simp

lemma utc_oct15_evening: "utc_fromtimestamp 1760551200 = oct15"
  unfolding oct15_def by code_simp

lemma utc_aug12: "utc_fromtimestamp 1755000000 = \<lparr>year = 2025, month = 8, day = 12\<rparr>"
  by code_simp

lemma is_newsletter_post_examples:
  "is_newsletter_post [''Newsletter'']" "is_newsletter_post [''newsletter'']"
  "is_newsletter_post [''daily-newsletter'']"
  by (simp_all add: is_newsletter_post_def newsletter_variations_def lower_def lower_char_def
        sublist_Cons_right)

lemma qualifies_brief_post: "qualifies utc_fromtimestamp oct15 use_tag brief_post"
  by (simp add: qualifies_def brief_post_def utc_oct15_noon is_newsletter_post_examples
        sublist_Cons_right)

lemma qualifies_late_post: "qualifies utc_fromtimestamp oct15 use_tag late_post"
  by (simp add: qualifies_def late_post_def utc_oct15_evening is_newsletter_post_examples
        sublist_Cons_right)

lemma qualifies_small_post: "qualifies utc_fromtimestamp oct15 use_tag small_post"
  by (simp add: qualifies_def small_post_def utc_oct15_noon is_newsletter_post_examples
        sublist_Cons_right)

lemma not_qualifies_old_post: "\<not> qualifies utc_fromtimestamp oct15 use_tag old_post"
  by (simp add: qualifies_def old_post_def utc_aug12 oct15_def)

lemma not_qualifies_cpm_post: "\<not> qualifies utc_fromtimestamp oct15 use_tag cpm_post"
  by (simp add: qualifies_def cpm_post_def utc_oct15_noon sublist_Cons_right)

lemma not_qualifies_undated_post: "\<not> qualifies utc_fromtimestamp oct15 use_tag undated_post"
  by (simp add: qualifies_def undated_post_def)

lemmas example_qualifies =
  qualifies_brief_post qualifies_late_post qualifies_small_post
  not_qualifies_old_post not_qualifies_cpm_post not_qualifies_undated_post

lemma unordered_loop:
  "get_posts_loop (unordered_fetch pub) utc_fromtimestamp oct15 use_tag full 1 ([], 0) =
     (if full then [brief_post] else [], 5000)"
proof -
  have "get_posts_loop (unordered_fetch pub) utc_fromtimestamp oct15 use_tag full 1 ([], 0) =
        foldl (\<lambda>a j. foldl (scan_post utc_fromtimestamp oct15 use_tag full) a
                 (page_posts (unordered_fetch pub j))) ([], 0) [1..<Suc 3]"
    by (rule get_posts_loop_pages)
       (simp_all add: upt_rec max_pages_def beehiiv_stops_def unordered_fetch_def
          total_pages_of_def del: set_upt)
  also have "[1..<Suc 3] = [1, 2, 3::nat]" by (simp add: upt_rec)
  also have "foldl (\<lambda>a j. foldl (scan_post utc_fromtimestamp oct15 use_tag full) a
                 (page_posts (unordered_fetch pub j))) ([], 0) [1, 2, 3::nat] =
             foldl (scan_post utc_fromtimestamp oct15 use_tag full) ([], 0)
               ([old_post] @ [old_post, undated_post] @ [brief_post, cpm_post])"
    by (simp add: page_posts_def unordered_fetch_def)
  also have "\<dots> = (if full then [brief_post] else [], 0 + recipients brief_post)"
    unfolding foldl_scan_post by (simp add: example_qualifies)
  also have "recipients brief_post = 5000" by (simp add: brief_post_def)
  finally show ?thesis by simp
qed

lemma unordered_search:
  "get_posts_for_date example_publications unordered_fetch utc_fromtimestamp ''News Flash'' oct15 True =
     \<lparr>r_posts = [brief_post], r_recipients = 5000\<rparr>"
  "get_posts_for_date example_publications unordered_fetch utc_fromtimestamp ''Morning Brief'' oct15 True =
     \<lparr>r_posts = [brief_post], r_recipients = 5000\<rparr>"
  "get_posts_for_date example_publications unordered_fetch utc_fromtimestamp ''Morning Brief'' oct15 False =
     \<lparr>r_posts = [], r_recipients = 5000\<rparr>"
  by (simp_all add: get_posts_for_date_def example_publications_def
        unordered_loop [unfolded One_nat_def])

subsection \<open>What the Beehiiv search returns\<close>

lemma get_posts_for_date_qualify:
  "\<forall>p \<in> set (r_posts (get_posts_for_date publications fetch fts brand_name target full)).
     qualifies fts target (brand_name \<notin> set no_tag_brands) p"
proof (cases "publications brand_name")
  case None
  then show ?thesis by (simp add: get_posts_for_date_def)
next
  case (Some pub_id)
  have "\<forall>p \<in> set (fst (get_posts_loop (fetch pub_id) fts target (brand_name \<notin> set no_tag_brands)
                           full 1 ([], 0))).
          qualifies fts target (brand_name \<notin> set no_tag_brands) p"
    by (rule get_posts_loop_qualify) simp
  with Some show ?thesis
    by (simp add: get_posts_for_date_def case_prod_beta Let_def)
qed

lemma get_posts_for_date_recipients:
  "r_recipients (get_posts_for_date publications fetch fts brand_name target full) =
   sum_list (map recipients (r_posts (get_posts_for_date publications fetch fts brand_name target True)))"
proof (cases "publications brand_name")
  case None
  then show ?thesis by (simp add: get_posts_for_date_def)
next
  case (Some pub_id)
  let ?run = "\<lambda>full. get_posts_loop (fetch pub_id) fts target (brand_name \<notin> set no_tag_brands)
                        full 1 ([], 0)"
  have full: "snd (?run True) = 0 + sum_list (map recipients (fst (?run True)))"
    by (rule get_posts_loop_recipients) simp
  have "snd (?run False) = snd (?run True)"
    by (simp add: get_posts_loop_modes [where ps' = "[]"])
  then have "snd (?run full) = snd (?run True)" by (cases full) simp_all
  with full Some show ?thesis
    by (simp add: get_posts_for_date_def case_prod_beta Let_def)
qed

lemma cpm_post_title: "sublist ''Dedicated CPM'' (title cpm_post)"
  by (simp add: cpm_post_def)

lemma brief_post_title: "\<not> sublist ''Dedicated CPM'' (title brief_post)"
  by (simp add: brief_post_def sublist_Cons_right)

subsection \<open>Metric rows\<close>











subsection \<open>The TinyEmail classification\<close>





lemma campaign_names:
  "sublist ''Daily Digest'' (c_name am_campaign)"
  "\<not> is_pm (c_name am_campaign)"
  "\<not> sublist ''CPM'' (c_name am_campaign)"
  "sublist ''Daily Digest PM'' (c_name pm_campaign)"
  "\<not> sublist ''Daily Digest'' (c_name welcome_campaign)"
  "\<not> sublist ''CPM'' (c_name welcome_campaign)"
  "sublist ''_PM'' (c_name underscore_pm_campaign)"
  "sublist ''Daily Digest'' (c_name underscore_pm_campaign)"
  "\<not> sublist ''Daily Digest PM'' (c_name underscore_pm_campaign)"
  "\<not> sublist '' PM '' (c_name underscore_pm_campaign)"
  "\<not> sublist ''CPM'' (c_name underscore_pm_campaign)"
  "\<not> sublist ''Dedicated CPM'' (c_name underscore_pm_campaign)"
  by (simp_all add: am_campaign_def pm_campaign_def welcome_campaign_def
        underscore_pm_campaign_def is_pm_def sublist_Cons_right)

lemma campaign_eligible:
  "c_status am_campaign = ''COMPLETED''" "c_sent am_campaign = 5000"
  "c_status pm_campaign = ''COMPLETED''" "c_sent pm_campaign = 4000"
  "c_status welcome_campaign = ''COMPLETED''" "c_sent welcome_campaign = 900"
  "c_status underscore_pm_campaign = ''COMPLETED''" "c_sent underscore_pm_campaign = 5000"
  "c_status draft_campaign = ''DRAFT''" "c_sent draft_campaign = 5000"
  "c_status test_campaign = ''COMPLETED''" "c_sent test_campaign = 50"
  by (simp_all add: am_campaign_def pm_campaign_def welcome_campaign_def
        underscore_pm_campaign_def draft_campaign_def test_campaign_def)

subsection \<open>The rows of one brand\<close>







subsection \<open>More example searches\<close>






lemma date_formats_oct:
  "date_formats oct15 = [''10.15.25'', ''10.15.2025'', ''10.15.25'', ''2025-10-15'']"
  "date_formats oct14 = [''10.14.25'', ''10.14.2025'', ''10.14.25'', ''2025-10-14'']"
  by (simp_all add: date_formats_def oct15_def oct14_def strftime_mdy_short_def
        strftime_mdy_long_def strftime_mdy_nopad_def strftime_iso_def pad2_def digits.simps
        digit_def)

lemma matches_date_examples:
  "matches_date (date_formats oct15) am_campaign"
  "matches_date (date_formats oct15) pm_campaign"
  "matches_date (date_formats oct15) draft_campaign"
  "matches_date (date_formats oct15) test_campaign"
  "matches_date (date_formats oct15) welcome_campaign"
  "\<not> matches_date (date_formats oct15) august_campaign"
  "\<not> matches_date (date_formats oct14) am_campaign"
  "\<not> matches_date (date_formats oct14) pm_campaign"
  "\<not> matches_date (date_formats oct14) draft_campaign"
  "\<not> matches_date (date_formats oct14) test_campaign"
  "\<not> matches_date (date_formats oct14) welcome_campaign"
  "\<not> matches_date (date_formats oct14) august_campaign"
  unfolding date_formats_oct
  by (simp_all add: matches_date_def am_campaign_def pm_campaign_def draft_campaign_def
        test_campaign_def welcome_campaign_def august_campaign_def sublist_Cons_right)



lemma campaigns_failing_search:
  "get_campaigns_for_date campaigns_failing_fetch key brand oct15 = [am_campaign]"
proof -
  have go: "\<not> tinyemail_stops (campaigns_failing_fetch key 0)"
    by (simp add: tinyemail_stops_def campaigns_failing_fetch_def is_last_def)
  have page: "page_campaigns (campaigns_failing_fetch key 0) = [am_campaign]"
    by (simp add: page_campaigns_def campaigns_failing_fetch_def)
  have bad: "failed (campaigns_failing_fetch key (0 + 1))"
    by (simp add: failed_def campaigns_failing_fetch_def)
  have "get_campaigns_loop (campaigns_failing_fetch key) (date_formats oct15) 0 [] =
        get_campaigns_loop (campaigns_failing_fetch key) (date_formats oct15) (0 + 1)
          ([] @ filter (matches_date (date_formats oct15))
                  (page_campaigns (campaigns_failing_fetch key 0)))"
    by (rule get_campaigns_loop_step) (simp, rule go)
  also have "\<dots> = [] @ filter (matches_date (date_formats oct15))
                  (page_campaigns (campaigns_failing_fetch key 0))"
    using bad by (rule get_campaigns_loop_failed)
  finally show ?thesis
    unfolding get_campaigns_for_date_def page by (simp add: matches_date_examples)
qed


subsection \<open>A failed page\<close>






section \<open>The claims\<close>

subsection \<open>C1: the paginated search over unordered pages\<close>




subsection \<open>C2: the PM markers of the two TinyEmail classifiers\<close>

text \<open>
  C2 at the completed campaign \<^verbatim>\<open>Daily Digest_PM 10.15.25\<close> with 5000 sends. The name
  contains the \<^verbatim>\<open>_PM\<close> token. \<^verbatim>\<open>get_previous_sends\<close> tests that token and counts
  the campaign under \<^verbatim>\<open>PM\<close>; \<^verbatim>\<open>separate_all_campaigns\<close> does not test it (nor the
  \<^verbatim>\<open> PM-\<close> token) and puts the campaign in the AM list.
\<close>

theorem underscore_pm_classified_am:
  "sublist ''_PM'' (c_name underscore_pm_campaign) \<and>
   c_status underscore_pm_campaign = ''COMPLETED'' \<and>
   c_sent underscore_pm_campaign = 5000 \<and>
   separate_all_campaigns [underscore_pm_campaign] = ([underscore_pm_campaign], []) \<and>
   get_previous_sends [underscore_pm_campaign] ''PM'' = Some 5000 \<and>
   get_previous_sends [underscore_pm_campaign] ''AM'' = None"
proof -
  have "separate_step ([], []) underscore_pm_campaign = ([underscore_pm_campaign], [])"
    by (simp add: separate_step_def campaign_names campaign_eligible
          is_daily_digest_pm_def is_dedicated_cpm_def)
  moreover have "is_pm (c_name underscore_pm_campaign)"
    by (simp add: is_pm_def campaign_names)
  then have "previous_sends_step Map.empty underscore_pm_campaign = [''PM'' \<mapsto> 5000]"
    by (simp add: previous_sends_step_def campaign_eligible)
  ultimately show ?thesis
    by (simp add: separate_all_campaigns_def get_previous_sends_def campaign_names
          campaign_eligible)
qed

text \<open>The two classifications of that campaign, read off the evaluation above.\<close>

theorem underscore_pm_classified_am_witness:
  "fst (separate_all_campaigns [underscore_pm_campaign]) = [underscore_pm_campaign] \<and>
   snd (separate_all_campaigns [underscore_pm_campaign]) = [] \<and>
   get_previous_sends [underscore_pm_campaign] ''PM'' = Some (c_sent underscore_pm_campaign)"
  using underscore_pm_classified_am by simp

subsection \<open>C3: PM rules come before the AM default\<close>



subsection \<open>C4: the rate calculators are total\<close>



subsection \<open>C5: the unsubscribe rate of the two vendors\<close>



subsection \<open>C6: the status and volume filter\<close>




subsection \<open>C7: the Dedicated CPM exclusion of the Beehiiv search\<close>

text \<open>
  C7, as the code has it. The test for \<^verbatim>\<open>"Dedicated CPM"\<close> in the title comes before the
  choice between the tag-filtered and the no-tag-filter branch, so it holds on both: no
  post returned by the search, for any brand, has a title containing \<^verbatim>\<open>Dedicated CPM\<close>,
  and scanning such a post leaves the collected posts and the recipient count as they
  were, with and without the tag filter.
\<close>

theorem dedicated_cpm_dropped_on_both_paths:
  "(\<forall>p \<in> set (r_posts (get_posts_for_date publications fetch fromtimestamp brand_name
                            target_date get_full_data)).
      \<not> sublist ''Dedicated CPM'' (title p)) \<and>
   (sublist ''Dedicated CPM'' (title post) \<longrightarrow>
      scan_post fromtimestamp target_date True get_full_data acc post = acc \<and>
      scan_post fromtimestamp target_date False get_full_data acc post = acc)"
proof (intro conjI ballI impI)
  fix p
  assume "p \<in> set (r_posts (get_posts_for_date publications fetch fromtimestamp brand_name
                              target_date get_full_data))"
  then have "qualifies fromtimestamp target_date (brand_name \<notin> set no_tag_brands) p"
    using get_posts_for_date_qualify by blast
  then show "\<not> sublist ''Dedicated CPM'' (title p)"
    by (simp add: qualifies_def split: option.splits)
next
  assume "sublist ''Dedicated CPM'' (title post)"
  then show "scan_post fromtimestamp target_date True get_full_data acc post = acc"
    by (simp add: scan_post_def split: prod.splits option.splits)
next
  assume "sublist ''Dedicated CPM'' (title post)"
  then show "scan_post fromtimestamp target_date False get_full_data acc post = acc"
    by (simp add: scan_post_def split: prod.splits option.splits)
qed

text \<open>
  The theorem at the brand \<^verbatim>\<open>News Flash\<close>, which is on the no-tag-filter list: of the
  two posts of the target day only the one without the marker is returned.
\<close>

theorem dedicated_cpm_dropped_on_both_paths_witness:
  "r_posts (get_posts_for_date example_publications unordered_fetch utc_fromtimestamp
              ''News Flash'' oct15 True) = [brief_post] \<and>
   \<not> sublist ''Dedicated CPM'' (title brief_post) \<and>
   sublist ''Dedicated CPM'' (title cpm_post) \<and>
   scan_post utc_fromtimestamp oct15 True True ([], 0) cpm_post = ([], 0) \<and>
   scan_post utc_fromtimestamp oct15 False True ([], 0) cpm_post = ([], 0)"
  using dedicated_cpm_dropped_on_both_paths
          [of example_publications unordered_fetch utc_fromtimestamp "''News Flash''" oct15 True
              cpm_post "([], 0)"]
  by (simp add: unordered_search cpm_post_title)

text \<open>
  C7 as stated says that under the no-tag-filter path a post titled
  \<^verbatim>\<open>Dedicated CPM ...\<close> is included. For \<^verbatim>\<open>News Flash\<close> the post
  \<^const>\<open>cpm_post\<close> is on the third page, published on the target day, and the search
  does not return it.
\<close>

theorem cpm_included_without_tag_filter_counterexample:
  "''News Flash'' \<in> set no_tag_brands \<and>
   example_publications ''News Flash'' = Some ''pub_2'' \<and>
   unordered_fetch ''pub_2'' 3 =
     Response 200 (Some \<lparr>pp_data = [brief_post, cpm_post], pp_total_pages = Some 3\<rparr>) \<and>
   sublist ''Dedicated CPM'' (title cpm_post) \<and>
   publish_date cpm_post = Some 1760529600 \<and>
   utc_fromtimestamp 1760529600 = oct15 \<and>
   cpm_post \<notin> set (r_posts (get_posts_for_date example_publications unordered_fetch
                               utc_fromtimestamp ''News Flash'' oct15 True))"
proof -
  have "cpm_post \<noteq> brief_post" by (simp add: cpm_post_def brief_post_def)
  moreover have "publish_date cpm_post = Some 1760529600" by (simp add: cpm_post_def)
  moreover have "unordered_fetch ''pub_2'' 3 =
     Response 200 (Some \<lparr>pp_data = [brief_post, cpm_post], pp_total_pages = Some 3\<rparr>)"
    by (simp add: unordered_fetch_def)
  moreover have "example_publications ''News Flash'' = Some ''pub_2''"
    by (simp add: example_publications_def)
  ultimately show ?thesis
    by (simp add: unordered_search cpm_post_title utc_oct15_noon no_tag_brands_def)
qed

subsection \<open>C8: a failed search returns what it has\<close>



subsection \<open>C9: what the writer stores for the rates\<close>

text \<open>
  C9, as the code has it. The writer stores the open rate, the unique open rate, CTR,
  UCTR and the unsubscribe rate of a row unchanged. The delivered rate it stores as an
  integer, truncated toward zero by \<^verbatim>\<open>int(float(...))\<close>, so the stored value is
  less than one away from the row's. The writer returns \<^verbatim>\<open>True\<close> exactly when the
  upsert of that data does not raise.
\<close>

theorem writer_keeps_rates_truncates_delivered:
  "db_open_rate (write_metrics_data now record) = Open_Rate record \<and>
   db_unique_open_rate (write_metrics_data now record) = Unique_Open_Rate record \<and>
   db_ctr (write_metrics_data now record) = CTR record \<and>
   db_uctr (write_metrics_data now record) = UCTR record \<and>
   db_unsubscribe_rate (write_metrics_data now record) = Pct_Unsubscribe record \<and>
   db_delivered (write_metrics_data now record) =
     (if Delivered record \<ge> 0 then \<lfloor>Delivered record\<rfloor> else \<lceil>Delivered record\<rceil>) \<and>
   \<bar>Delivered record - of_int (db_delivered (write_metrics_data now record))\<bar> < 1 \<and>
   (write_metrics upsert now record = Inr True \<longleftrightarrow>
      upsert (write_metrics_data now record) = None)"
proof -
  have "\<bar>Delivered record - of_int (int_of_float (Delivered record))\<bar> < 1"
    unfolding int_of_float_def by (simp split: if_splits) linarith
  then show ?thesis
    by (auto simp: write_metrics_data_def write_metrics_def int_of_float_def split: option.splits)
qed

text \<open>The theorem on a row with a delivered rate of 90.64: 90 is stored.\<close>

theorem writer_keeps_rates_truncates_delivered_witness:
  "db_open_rate (write_metrics_data ''2025-10-16T06:00:00'' example_metric) = 42 \<and>
   db_unsubscribe_rate (write_metrics_data ''2025-10-16T06:00:00'' example_metric) = 24 / 10000 \<and>
   db_delivered (write_metrics_data ''2025-10-16T06:00:00'' example_metric) = 90"
proof -
  have a: "\<lfloor>Delivered example_metric\<rfloor> = 90" "Delivered example_metric \<ge> 0"
    "Open_Rate example_metric = 42" "Pct_Unsubscribe example_metric = 24 / 10000"
    by (simp_all add: example_metric_def floor_eq_iff)
  from writer_keeps_rates_truncates_delivered [of "''2025-10-16T06:00:00''" example_metric]
  show ?thesis by (simp add: a)
qed

text \<open>
  C9 as stated says that the value written for every rate, the delivered rate included,
  equals the rate of the row. For a delivered rate of 90.64 the writer stores 90.
\<close>

theorem writer_delivered_rate_counterexample:
  "Delivered example_metric = 9064 / 100 \<and>
   db_delivered (write_metrics_data ''2025-10-16T06:00:00'' example_metric) = 90 \<and>
   of_int (db_delivered (write_metrics_data ''2025-10-16T06:00:00'' example_metric)) \<noteq>
     Delivered example_metric"
proof -
  have a: "\<lfloor>Delivered example_metric\<rfloor> = 90" "Delivered example_metric \<ge> 0"
    "Delivered example_metric = 9064 / 100"
    by (simp_all add: example_metric_def floor_eq_iff)
  have "db_delivered (write_metrics_data ''2025-10-16T06:00:00'' example_metric) = 90"
    by (simp add: write_metrics_data_def int_of_float_def a(1,2))
  then show ?thesis by (simp add: a(3))
qed

subsection \<open>C10: returned posts carry a publish date\<close>

text \<open>
  C10. Every post returned by the Beehiiv search has a \<^verbatim>\<open>publish_date\<close> that is present
  and not zero, and its date is the target date; for such a post the metric row does not
  depend on \<^verbatim>\<open>datetime.now()\<close>, so the fallback is never taken. The recipient count
  returned, in either mode, is the sum over exactly the posts the full-data search
  returns, and scanning a post without a publish date changes neither the collected posts
  nor the count.
\<close>

theorem returned_posts_have_publish_date:
  "(\<forall>p \<in> set (r_posts (get_posts_for_date publications fetch fromtimestamp brand_name
                            target_date get_full_data)).
      (\<exists>ts. publish_date p = Some ts \<and> ts \<noteq> 0 \<and> fromtimestamp ts = target_date) \<and>
      (\<forall>now now'. extract_metrics fromtimestamp now p brand_name previous_recipients =
                   extract_metrics fromtimestamp now' p brand_name previous_recipients)) \<and>
   r_recipients (get_posts_for_date publications fetch fromtimestamp brand_name target_date
                   get_full_data) =
     sum_list (map recipients
       (r_posts (get_posts_for_date publications fetch fromtimestamp brand_name target_date True))) \<and>
   (publish_date post = None \<or> publish_date post = Some 0 \<longrightarrow>
      scan_post fromtimestamp target_date use_tag_filter get_full_data acc post = acc)"
proof (intro conjI ballI impI allI)
  fix p
  assume "p \<in> set (r_posts (get_posts_for_date publications fetch fromtimestamp brand_name
                              target_date get_full_data))"
  then have q: "qualifies fromtimestamp target_date (brand_name \<notin> set no_tag_brands) p"
    using get_posts_for_date_qualify by blast
  then show "\<exists>ts. publish_date p = Some ts \<and> ts \<noteq> 0 \<and> fromtimestamp ts = target_date"
    by (simp add: qualifies_def split: option.splits)
  then obtain ts where ts: "publish_date p = Some ts" "ts \<noteq> 0" by blast
  fix now now'
  show "extract_metrics fromtimestamp now p brand_name previous_recipients =
        extract_metrics fromtimestamp now' p brand_name previous_recipients"
    by (simp add: extract_metrics_def ts)
next
  show "r_recipients (get_posts_for_date publications fetch fromtimestamp brand_name target_date
                   get_full_data) =
     sum_list (map recipients
       (r_posts (get_posts_for_date publications fetch fromtimestamp brand_name target_date True)))"
    by (rule get_posts_for_date_recipients)
next
  assume "publish_date post = None \<or> publish_date post = Some 0"
  then show "scan_post fromtimestamp target_date use_tag_filter get_full_data acc post = acc"
    by (auto simp: scan_post_def split: prod.splits)
qed

text \<open>
  The theorem on the three-page example: the undated post of page two, with its 777
  recipients, is neither returned nor counted.
\<close>

theorem returned_posts_have_publish_date_witness:
  "r_posts (get_posts_for_date example_publications unordered_fetch utc_fromtimestamp
              ''Morning Brief'' oct15 True) = [brief_post] \<and>
   publish_date brief_post = Some 1760529600 \<and>
   utc_fromtimestamp 1760529600 = oct15 \<and>
   extract_metrics utc_fromtimestamp oct14 brief_post ''Morning Brief'' 4800 =
     extract_metrics utc_fromtimestamp oct15 brief_post ''Morning Brief'' 4800 \<and>
   r_recipients (get_posts_for_date example_publications unordered_fetch utc_fromtimestamp
                   ''Morning Brief'' oct15 False) = 5000 \<and>
   recipients brief_post = 5000 \<and>
   publish_date undated_post = None \<and>
   scan_post utc_fromtimestamp oct15 True True ([], 0) undated_post = ([], 0)"
proof -
  have a: "publish_date brief_post = Some 1760529600" "recipients brief_post = 5000"
    by (simp_all add: brief_post_def)
  have b: "publish_date undated_post = None" by (simp add: undated_post_def)
  from returned_posts_have_publish_date
         [of example_publications unordered_fetch utc_fromtimestamp "''Morning Brief''" oct15 True
             "4800" undated_post True "([], 0)"]
       returned_posts_have_publish_date
         [of example_publications unordered_fetch utc_fromtimestamp "''Morning Brief''" oct15 False
             "4800" undated_post True "([], 0)"]
  show ?thesis
    by (simp add: unordered_search a b utc_oct15_noon)
qed

end
